theory Spec2Isabelle
  imports Complex_Main
begin

section \<open>Python values and exceptions\<close>

text \<open>
  The arguments of \<open>StreamSync\<close> are dynamically typed: the constructor tests
  \<open>not reference_object\<close> and \<open>type(reference_object) is not str\<close>, and
  \<open>channel\<close> defaults to \<open>None\<close>. The values that reach those tests are modelled by
  \<open>pyval\<close>; the exceptions that the code raises itself, or that the libraries it calls
  raise, by \<open>exn\<close>.
\<close>

datatype pyval = PyNone | PyStr string | PyInt int

datatype exn =
  TypeError | OSError | ValueError | IndexError | FileNotFoundError | OverflowError

text \<open>Python's truth value: \<open>None\<close>, the empty string and \<open>0\<close> are false.\<close>

fun truthy :: "pyval \<Rightarrow> bool" where
  "truthy PyNone = False"
| "truthy (PyStr s) = (s \<noteq> [])"
| "truthy (PyInt i) = (i \<noteq> 0)"

fun is_str :: "pyval \<Rightarrow> bool" where
  "is_str (PyStr s) = True"
| "is_str v = False"

fun str_of :: "pyval \<Rightarrow> string" where
  "str_of (PyStr s) = s"
| "str_of v = []"

section \<open>\<open>pathlib.Path(p).suffix\<close>\<close>

text \<open>
  \<open>pathlib\<close> is the standard library's, not this repository's. Its POSIX flavour splits
  the path at \<open>/\<close> and drops the empty and the \<open>.\<close> components; \<open>name\<close> is the last
  component left (or the empty string), and
  \<^verbatim>\<open>
    i = name.rfind('.')
    if 0 < i < len(name) - 1: return name[i:]
    else: return ''
  \<close>
  is \<open>suffix\<close>.
\<close>

fun split_sep :: "char \<Rightarrow> string \<Rightarrow> string list" where
  "split_sep sep [] = [[]]"
| "split_sep sep (c # cs) =
     (if c = sep then [] # split_sep sep cs
      else (case split_sep sep cs of [] \<Rightarrow> [[c]] | p # ps \<Rightarrow> (c # p) # ps))"

fun rfind :: "char \<Rightarrow> string \<Rightarrow> int" where
  "rfind ch [] = - 1"
| "rfind ch (c # cs) =
     (let i = rfind ch cs in
      if 0 \<le> i then i + 1 else if c = ch then 0 else - 1)"

definition path_name :: "string \<Rightarrow> string" where
  "path_name p =
     (case filter (\<lambda>x. x \<noteq> [] \<and> x \<noteq> ''.'') (split_sep CHR ''/'' p) of
        [] \<Rightarrow> []
      | x # xs \<Rightarrow> last (x # xs))"

definition path_suffix :: "string \<Rightarrow> string" where
  "path_suffix p =
     (let name = path_name p; i = rfind CHR ''.'' name in
      if 0 < i \<and> i < int (length name) - 1 then drop (nat i) name else [])"

section \<open>The libraries behind the file paths\<close>

text \<open>
  \<open>scipy.io.wavfile.read\<close> returns the sample rate and a numpy array: one-dimensional
  for a mono file, of shape \<open>(n, k)\<close> for a file with \<open>k\<close> channels. \<open>Arr2 k rows\<close> is the
  array of shape \<open>(length rows, k)\<close>: one row per sample, \<open>k\<close> entries in every row.
\<close>

datatype 'a ndarray = Arr1 "'a list" | Arr2 nat "'a list list"

text \<open>
  An \<open>mne\<close> \<open>Raw\<close> object as far as the code looks at it: \<open>raw.info["sfreq"]\<close>, and
  indexing by a channel name, which \<open>mne\<close> answers with a pair \<open>(data, times)\<close>.
\<close>

record raw_fif =
  info_sfreq :: real
  ch_data :: "(string \<times> real list) list"

type_synonym raw_item = "real list \<times> real list"

text \<open>
  What is on disk, and what the libraries make of it, is a parameter of every operation
  that takes a file path: \<open>pathlib.Path.exists\<close>, \<open>mne.io.read_raw_fif\<close>, \<open>raw[name]\<close>
  (the file is opened with \<open>preload=False\<close>, so indexing reads the disk) and
  \<open>scipy.io.wavfile.read\<close>. Each may raise; \<open>raw[name]\<close> may also answer \<open>None\<close>, which
  the constructor tests for.
\<close>

record world =
  path_exists :: "string \<Rightarrow> bool"
  read_raw_fif :: "string \<Rightarrow> exn + raw_fif"
  raw_getitem :: "raw_fif \<Rightarrow> string \<Rightarrow> exn + raw_item option"
  wavread :: "string \<Rightarrow> exn + int \<times> int ndarray"

section \<open>\<open>StreamSync\<close>\<close>

text \<open>
  The object's fields. \<open>streams\<close> holds the tuples \<open>(filename, srate, Pulses, Data)\<close> in
  the order of the \<open>append\<close> calls.
\<close>

type_synonym stream_entry = "string \<times> int \<times> int list \<times> int list"

record StreamSync =
  raw :: raw_fif
  ref_stream :: "raw_item option"
  sfreq :: real
  streams :: "stream_entry list"

text \<open>
  \<open>__init__(self, reference_object, pulse_channel)\<close>: the checks in the order of the
  source, each \<open>raise\<close> a branch; \<open>read_raw_fif\<close> is called twice and \<open>raw[pulse_channel]\<close>
  twice, as in the source. An exception leaves no object behind.
\<close>

definition init :: "world \<Rightarrow> pyval \<Rightarrow> pyval \<Rightarrow> exn + StreamSync" where
  "init w reference_object pulse_channel =
     (if \<not> truthy reference_object then Inl TypeError
      else if \<not> is_str reference_object then Inl TypeError
      else if \<not> path_exists w (str_of reference_object) then Inl OSError
      else if \<not> path_suffix (str_of reference_object) = ''.fif'' then Inl ValueError
      else (case read_raw_fif w (str_of reference_object) of
        Inl e \<Rightarrow> Inl e
      | Inr raw0 \<Rightarrow>
          if \<not> truthy pulse_channel then Inl TypeError
          else if \<not> is_str pulse_channel then Inl TypeError
          else (case raw_getitem w raw0 (str_of pulse_channel) of
            Inl e \<Rightarrow> Inl e
          | Inr None \<Rightarrow> Inl ValueError
          | Inr (Some item) \<Rightarrow>
              (case read_raw_fif w (str_of reference_object) of
                Inl e \<Rightarrow> Inl e
              | Inr raw1 \<Rightarrow>
                  (case raw_getitem w raw0 (str_of pulse_channel) of
                    Inl e \<Rightarrow> Inl e
                  | Inr item1 \<Rightarrow>
                      Inr \<lparr>raw = raw1, ref_stream = item1,
                           sfreq = info_sfreq raw1, streams = []\<rparr>)))))"

text \<open>
  \<open>wav_signal[:, c]\<close> for an integer \<open>c\<close>. numpy first converts the index to a
  signed 64-bit integer: an index in \<open>2^63 .. 2^64 - 1\<close> raises \<open>OverflowError\<close>, any
  other index outside the signed 64-bit range is no valid index (\<open>IndexError\<close>), and
  this happens whatever the array is. Then a one-dimensional array has no second axis
  (\<open>IndexError\<close>), and on shape \<open>(n, k)\<close> the index must lie in \<open>-k \<le> c < k\<close>, a
  negative one counting from the end.
\<close>

fun column :: "'a ndarray \<Rightarrow> int \<Rightarrow> exn + 'a list" where
  "column (Arr1 xs) c =
     (if 2 ^ 63 \<le> c \<and> c < 2 ^ 64 then Inl OverflowError else Inl IndexError)"
| "column (Arr2 k rows) c =
     (if 2 ^ 63 \<le> c \<and> c < 2 ^ 64 then Inl OverflowError
      else if c < - (2 ^ 63) \<or> 2 ^ 64 \<le> c then Inl IndexError
      else if - int k \<le> c \<and> c < int k
      then Inr (map (\<lambda>r. r ! nat (if c < 0 then c + int k else c)) rows)
      else Inl IndexError)"

text \<open>
  \<open>_extract_data_from_wav(self, stream, channel)\<close>. The tuple is built left to right:
  \<open>wav_signal[:,channel]\<close>, then \<open>1-channel\<close>, then \<open>wav_signal[:,1-channel]\<close>. With
  \<open>channel = None\<close> the first index only inserts an axis and \<open>1 - None\<close> raises
  \<open>TypeError\<close>; a \<open>str\<close> is not an index at all (\<open>IndexError\<close>).
\<close>

definition extract_data_from_wav ::
  "world \<Rightarrow> string \<Rightarrow> pyval \<Rightarrow> exn + int \<times> int list \<times> int list" where
  "extract_data_from_wav w stream channel =
     (case wavread w stream of
        Inl e \<Rightarrow> Inl e
      | Inr (srate, wav_signal) \<Rightarrow>
          (case channel of
             PyNone \<Rightarrow> Inl TypeError
           | PyStr s \<Rightarrow> Inl IndexError
           | PyInt c \<Rightarrow>
               (case column wav_signal c of
                  Inl e \<Rightarrow> Inl e
                | Inr pulses \<Rightarrow>
                    (case column wav_signal (1 - c) of
                       Inl e \<Rightarrow> Inl e
                     | Inr data \<Rightarrow> Inr (srate, pulses, data)))))"

text \<open>\<open>_extract_data_from_stream(self, stream, channel)\<close>.\<close>

definition extract_data_from_stream ::
  "world \<Rightarrow> string \<Rightarrow> pyval \<Rightarrow> exn + int \<times> int list \<times> int list" where
  "extract_data_from_stream w stream channel =
     (let ext = path_suffix stream in
      if ext = ''.wav'' then extract_data_from_wav w stream channel
      else Inl TypeError)"

text \<open>
  \<open>add_stream(self, stream, channel=None, events=None)\<close>. The object is mutated in
  place, so the state after the call is returned beside the outcome, also when the call
  raises. The method has no \<open>return\<close>: its value is \<open>None\<close>. \<open>events\<close> is never read.
\<close>

definition add_stream ::
  "world \<Rightarrow> StreamSync \<Rightarrow> string \<Rightarrow> pyval \<Rightarrow> (exn + pyval) \<times> StreamSync" where
  "add_stream w self stream channel =
     (case extract_data_from_stream w stream channel of
        Inl e \<Rightarrow> (Inl e, self)
      | Inr (srate, pulses, data) \<Rightarrow>
          (Inr PyNone, self\<lparr>streams := streams self @ [(stream, srate, pulses, data)]\<rparr>))"

text \<open>\<open>do_syncing(self)\<close>: a docstring and two comments; the body does nothing.\<close>

definition do_syncing :: "StreamSync \<Rightarrow> pyval \<times> StreamSync" where
  "do_syncing self = (PyNone, self)"

section \<open>What the calls do to the disk\<close>








section \<open>Sequences of calls\<close>

text \<open>
  A caller that adds one stream after the other and goes on after a call that raised:
  the object each call leaves behind is the next call's \<open>self\<close>.
\<close>

definition add_streams ::
  "world \<Rightarrow> StreamSync \<Rightarrow> (string \<times> pyval) list \<Rightarrow> StreamSync" where
  "add_streams w self calls =
     foldl (\<lambda>s (stream, channel). snd (add_stream w s stream channel)) self calls"

section \<open>A disk to run the code on\<close>

text \<open>
  One recording session on disk: a reference file whose stim channel \<open>STI101\<close> is flat
  (not one pulse in it), a second \<open>.fif\<close> file that \<open>mne\<close> cannot read, a stereo camera
  track, a mono track, a three-channel track and a video file. \<open>raw[name]\<close> raises for
  a channel the file does not have.
\<close>

definition lab_raw :: raw_fif where
  "lab_raw = \<lparr>info_sfreq = 1000, ch_data = [(''STI101'', [0, 0, 0, 0])]\<rparr>"

definition lab_getitem :: "raw_fif \<Rightarrow> string \<Rightarrow> exn + raw_item option" where
  "lab_getitem r name =
     (case map_of (ch_data r) name of
        None \<Rightarrow> Inl ValueError
      | Some d \<Rightarrow> Inr (Some (d, map (\<lambda>i. real i / info_sfreq r) [0..<length d])))"

definition lab_disk :: world where
  "lab_disk =
     \<lparr>path_exists = (\<lambda>p. p \<in> set [''ref_raw.fif'', ''broken_raw.fif'', ''cam1.wav'',
        ''mono.wav'', ''rig3.wav'', ''cam2.mp4'']),
      read_raw_fif = (\<lambda>p.
        if p = ''ref_raw.fif'' then Inr lab_raw
        else if p = ''broken_raw.fif'' then Inl ValueError
        else Inl FileNotFoundError),
      raw_getitem = lab_getitem,
      wavread = (\<lambda>p.
        if p = ''cam1.wav'' then Inr (44100, Arr2 2 [[0, 7], [5, 8], [0, 9]])
        else if p = ''mono.wav'' then Inr (44100, Arr1 [1, 2, 3])
        else if p = ''rig3.wav'' then Inr (8000, Arr2 3 [[1, 2, 3], [4, 5, 6]])
        else Inl FileNotFoundError)\<rparr>"


text \<open>The same disk read by a library whose \<open>raw[name]\<close> answers \<open>None\<close> for a channel
  the file does not have.\<close>

definition lab_disk_lenient :: world where
  "lab_disk_lenient =
     lab_disk\<lparr>raw_getitem := (\<lambda>r name.
        case map_of (ch_data r) name of
          None \<Rightarrow> Inr None
        | Some d \<Rightarrow> lab_getitem r name)\<rparr>"

text \<open>The object the constructor builds from \<open>ref_raw.fif\<close> and \<open>STI101\<close>.\<close>

definition lab_session :: StreamSync where
  "lab_session =
     \<lparr>raw = lab_raw,
      ref_stream = Some ([0, 0, 0, 0], [0, 1 / 1000, 2 / 1000, 3 / 1000]),
      sfreq = 1000, streams = []\<rparr>"

section \<open>\<open>do_syncing\<close>\<close>

text \<open>
  C10. \<open>do_syncing\<close> is a no-op: on every object it returns \<open>None\<close> and leaves the
  object, hence each of its fields \<open>raw\<close>, \<open>ref_stream\<close>, \<open>sfreq\<close> and \<open>streams\<close>, as it
  was. Nothing else comes out of it: no warp, no match, no report.
\<close>

theorem do_syncing_noop:
  "fst (do_syncing self) = PyNone \<and> snd (do_syncing self) = self \<and>
   raw (snd (do_syncing self)) = raw self \<and>
   ref_stream (snd (do_syncing self)) = ref_stream self \<and>
   sfreq (snd (do_syncing self)) = sfreq self \<and>
   streams (snd (do_syncing self)) = streams self"
  by (simp add: do_syncing_def)

text \<open>On the object built from \<open>ref_raw.fif\<close>.\<close>

theorem do_syncing_noop_witness:
  "fst (do_syncing lab_session) = PyNone \<and> snd (do_syncing lab_session) = lab_session"
  using do_syncing_noop [of lab_session] by simp

section \<open>Streams of an unsupported format\<close>

text \<open>
  C8. A call of \<open>add_stream\<close> with a path whose suffix is not \<open>.wav\<close> raises
  \<open>TypeError\<close> and leaves the object as it was: \<open>self.streams\<close> has the same contents
  after the call as before, the \<open>append\<close> is never reached.
\<close>

theorem add_stream_unsupported:
  "path_suffix stream \<noteq> ''.wav'' \<Longrightarrow>
     add_stream w self stream channel = (Inl TypeError, self) \<and>
     streams (snd (add_stream w self stream channel)) = streams self"
  by (simp add: add_stream_def extract_data_from_stream_def)

text \<open>A video file handed to \<open>add_stream\<close>.\<close>

theorem add_stream_unsupported_witness:
  "path_suffix ''cam2.mp4'' \<noteq> ''.wav'' \<and>
   add_stream lab_disk lab_session ''cam2.mp4'' (PyInt 0) = (Inl TypeError, lab_session) \<and>
   streams (snd (add_stream lab_disk lab_session ''cam2.mp4'' (PyInt 0))) = streams lab_session"
proof -
  have h: "path_suffix ''cam2.mp4'' \<noteq> ''.wav''" by code_simp
  show ?thesis
    using h add_stream_unsupported [OF h, of lab_disk lab_session "PyInt 0"] by simp
qed

section \<open>The channels of a stereo file\<close>

text \<open>
  C9, as stated: on a multi-channel signal every channel index outside \<open>{0, 1}\<close> is an
  error. On the code, the three-channel track read with channel \<open>-1\<close>, and with
  channel 2, returns a triple: its last column twice.
\<close>

theorem extract_data_from_wav_three_columns_counterexample:
  "extract_data_from_wav lab_disk ''rig3.wav'' (PyInt (- 1)) = Inr (8000, [3, 6], [3, 6]) \<and>
   extract_data_from_wav lab_disk ''rig3.wav'' (PyInt 2) = Inr (8000, [3, 6], [3, 6])"
  by code_simp

lemma index_mod:
  assumes "- int k \<le> c" and "c < int k"
  shows "c mod int k = (if c < 0 then c + int k else c)"
proof (cases "c < 0")
  case True
  with assms have "0 \<le> c + int k" and "c + int k < int k" by simp_all
  then have "(c + int k) mod int k = c + int k" by (rule mod_pos_pos_trivial)
  moreover have "(c + int k) mod int k = c mod int k" by simp
  ultimately show ?thesis using True by simp
next
  case False
  with assms show ?thesis by simp
qed

lemma column_mod:
  assumes "- int k \<le> c" and "c < int k" and "int k < 2 ^ 63"
  shows "column (Arr2 k rows) c = Inr (map (\<lambda>r. r ! nat (c mod int k)) rows)"
  using assms by (simp add: index_mod)

text \<open>
  C9, amended. When the decoded signal is two-dimensional with at least two columns and
  the channel is 0 or 1, \<open>_extract_data_from_wav\<close> returns the sample rate, column
  \<open>channel\<close> as the pulse channel and column \<open>1 - channel\<close> as the data channel. It
  presupposes a stereo signal and an integer channel: a mono (one-dimensional) signal
  is an error for every channel argument, on a two-column signal every integer channel
  other than 0 and 1 is an error, and a channel that is no integer is an error on every
  signal. On a signal with \<open>k\<close> columns an integer channel \<open>c\<close> is accepted exactly
  when \<open>2 - k \<le> c \<le> k - 1\<close>, a negative index counting from the last column, so
  with three columns or more there are channels outside \<open>{0, 1}\<close> that return a triple.
  The error for an integer channel is \<open>IndexError\<close>, but \<open>OverflowError\<close> when the
  channel lies in \<open>2^63 .. 2^64 - 1\<close>.
\<close>

theorem extract_data_from_wav_columns:
  "(wavread w stream = Inr (srate, Arr2 k rows) \<and> 2 \<le> k \<and> (c = 0 \<or> c = 1) \<longrightarrow>
      extract_data_from_wav w stream (PyInt c) =
        Inr (srate, map (\<lambda>r. r ! nat c) rows, map (\<lambda>r. r ! nat (1 - c)) rows)) \<and>
   (wavread w stream = Inr (srate, Arr1 xs) \<longrightarrow>
      extract_data_from_wav w stream (PyInt c) =
        Inl (if 2 ^ 63 \<le> c \<and> c < 2 ^ 64 then OverflowError else IndexError) \<and>
      isl (extract_data_from_wav w stream channel)) \<and>
   (wavread w stream = Inr (srate, Arr2 2 rows) \<and> c \<noteq> 0 \<and> c \<noteq> 1 \<longrightarrow>
      extract_data_from_wav w stream (PyInt c) =
        Inl (if 2 ^ 63 \<le> c \<and> c < 2 ^ 64 then OverflowError else IndexError)) \<and>
   (wavread w stream = Inr (srate, wav_signal) \<and> (\<forall>i. channel \<noteq> PyInt i) \<longrightarrow>
      isl (extract_data_from_wav w stream channel)) \<and>
   (wavread w stream = Inr (srate, Arr2 k rows) \<and> int k < 2 ^ 63 - 1 \<longrightarrow>
      extract_data_from_wav w stream (PyInt c) =
        (if 2 - int k \<le> c \<and> c \<le> int k - 1
         then Inr (srate, map (\<lambda>r. r ! nat (c mod int k)) rows,
                   map (\<lambda>r. r ! nat ((1 - c) mod int k)) rows)
         else Inl (if 2 ^ 63 \<le> c \<and> c < 2 ^ 64 then OverflowError else IndexError)))"
proof -
  have stereo: "wavread w stream = Inr (srate, Arr2 k rows) \<and> 2 \<le> k \<and> (c = 0 \<or> c = 1) \<longrightarrow>
      extract_data_from_wav w stream (PyInt c) =
        Inr (srate, map (\<lambda>r. r ! nat c) rows, map (\<lambda>r. r ! nat (1 - c)) rows)"
    by (auto simp: extract_data_from_wav_def)
  have mono: "wavread w stream = Inr (srate, Arr1 xs) \<longrightarrow>
      extract_data_from_wav w stream (PyInt c) =
        Inl (if 2 ^ 63 \<le> c \<and> c < 2 ^ 64 then OverflowError else IndexError) \<and>
      isl (extract_data_from_wav w stream channel)"
    by (auto simp: extract_data_from_wav_def split: pyval.splits)
  have general: "extract_data_from_wav w stream (PyInt c) =
        (if 2 - int k \<le> c \<and> c \<le> int k - 1
         then Inr (srate, map (\<lambda>r. r ! nat (c mod int k)) rows,
                   map (\<lambda>r. r ! nat ((1 - c) mod int k)) rows)
         else Inl (if 2 ^ 63 \<le> c \<and> c < 2 ^ 64 then OverflowError else IndexError))"
    if read: "wavread w stream = Inr (srate, Arr2 k rows)" and small: "int k < 2 ^ 63 - 1"
    for k :: nat
  proof (cases "2 - int k \<le> c \<and> c \<le> int k - 1")
    case True
    from True small have c1: "column (Arr2 k rows) c =
        Inr (map (\<lambda>r. r ! nat (c mod int k)) rows)"
      by (intro column_mod) simp_all
    from True small have c2: "column (Arr2 k rows) (1 - c) =
        Inr (map (\<lambda>r. r ! nat ((1 - c) mod int k)) rows)"
      by (intro column_mod) simp_all
    show ?thesis
      using True by (simp add: extract_data_from_wav_def read c1 c2 del: column.simps)
  next
    case False
    show ?thesis
    proof (cases "- int k \<le> c \<and> c < int k")
      case in_range: True
      with False have "c = - int k \<or> c = 1 - int k" by arith
      with small have c2: "column (Arr2 k rows) (1 - c) = Inl IndexError"
        by auto
      from in_range small obtain pulses where c1: "column (Arr2 k rows) c = Inr pulses"
        by simp
      from in_range small have noband: "\<not> (2 ^ 63 \<le> c \<and> c < 2 ^ 64)" by simp
      show ?thesis
        using False noband
        by (simp add: extract_data_from_wav_def read c1 c2 del: column.simps)
    next
      case out: False
      then have c1: "column (Arr2 k rows) c =
          Inl (if 2 ^ 63 \<le> c \<and> c < 2 ^ 64 then OverflowError else IndexError)"
        by auto
      show ?thesis
        using False by (simp add: extract_data_from_wav_def read c1 del: column.simps)
    qed
  qed
  have two: "wavread w stream = Inr (srate, Arr2 2 rows) \<and> c \<noteq> 0 \<and> c \<noteq> 1 \<longrightarrow>
      extract_data_from_wav w stream (PyInt c) =
        Inl (if 2 ^ 63 \<le> c \<and> c < 2 ^ 64 then OverflowError else IndexError)"
  proof (intro impI, elim conjE)
    assume read: "wavread w stream = Inr (srate, Arr2 2 rows)" and "c \<noteq> 0" "c \<noteq> 1"
    then have "\<not> (2 - int 2 \<le> c \<and> c \<le> int 2 - 1)" by simp
    with general [of 2, OF read] show "extract_data_from_wav w stream (PyInt c) =
        Inl (if 2 ^ 63 \<le> c \<and> c < 2 ^ 64 then OverflowError else IndexError)"
      by simp
  qed
  have other: "wavread w stream = Inr (srate, wav_signal) \<and> (\<forall>i. channel \<noteq> PyInt i) \<longrightarrow>
      isl (extract_data_from_wav w stream channel)"
    by (auto simp: extract_data_from_wav_def split: pyval.splits)
  have gen: "wavread w stream = Inr (srate, Arr2 k rows) \<and> int k < 2 ^ 63 - 1 \<longrightarrow>
      extract_data_from_wav w stream (PyInt c) =
        (if 2 - int k \<le> c \<and> c \<le> int k - 1
         then Inr (srate, map (\<lambda>r. r ! nat (c mod int k)) rows,
                   map (\<lambda>r. r ! nat ((1 - c) mod int k)) rows)
         else Inl (if 2 ^ 63 \<le> c \<and> c < 2 ^ 64 then OverflowError else IndexError))"
    using general [of k] by blast
  show ?thesis
    by (intro conjI) (fact stereo, fact mono, fact two, fact other, fact gen)
qed

text \<open>
  The stereo track read with channel 1, the mono track with channel 0 and with channel
  \<open>2^63\<close>, the stereo track read with channel \<open>-1\<close>, with channel \<open>2^64 - 1\<close> and with
  the default \<open>channel=None\<close>, and the three-channel track read with channel \<open>-1\<close> and
  with channel 3.
\<close>

theorem extract_data_from_wav_columns_witness:
  "extract_data_from_wav lab_disk ''cam1.wav'' (PyInt 1) = Inr (44100, [7, 8, 9], [0, 5, 0]) \<and>
   extract_data_from_wav lab_disk ''mono.wav'' (PyInt 0) = Inl IndexError \<and>
   extract_data_from_wav lab_disk ''mono.wav'' (PyInt (2 ^ 63)) = Inl OverflowError \<and>
   extract_data_from_wav lab_disk ''cam1.wav'' (PyInt (- 1)) = Inl IndexError \<and>
   extract_data_from_wav lab_disk ''cam1.wav'' (PyInt (2 ^ 64 - 1)) = Inl OverflowError \<and>
   isl (extract_data_from_wav lab_disk ''cam1.wav'' PyNone) \<and>
   extract_data_from_wav lab_disk ''rig3.wav'' (PyInt (- 1)) = Inr (8000, [3, 6], [3, 6]) \<and>
   extract_data_from_wav lab_disk ''rig3.wav'' (PyInt 3) = Inl IndexError"
proof -
  have cam1: "wavread lab_disk ''cam1.wav'' = Inr (44100, Arr2 2 [[0, 7], [5, 8], [0, 9]])"
    and mono: "wavread lab_disk ''mono.wav'' = Inr (44100, Arr1 [1, 2, 3])"
    and rig3: "wavread lab_disk ''rig3.wav'' = Inr (8000, Arr2 3 [[1, 2, 3], [4, 5, 6]])"
    by (simp_all add: lab_disk_def)
  have a: "extract_data_from_wav lab_disk ''cam1.wav'' (PyInt 1) =
      Inr (44100, [7, 8, 9], [0, 5, 0])"
    using cam1 extract_data_from_wav_columns
      [where w = lab_disk and stream = "''cam1.wav''" and srate = 44100 and k = 2
         and rows = "[[0, 7], [5, 8], [0, 9]]" and c = 1]
    by simp
  have b: "extract_data_from_wav lab_disk ''mono.wav'' (PyInt 0) = Inl IndexError"
    using mono extract_data_from_wav_columns
      [where w = lab_disk and stream = "''mono.wav''" and srate = 44100 and xs = "[1, 2, 3]"
         and c = 0]
    by simp
  have c: "extract_data_from_wav lab_disk ''mono.wav'' (PyInt (2 ^ 63)) = Inl OverflowError"
    using mono extract_data_from_wav_columns
      [where w = lab_disk and stream = "''mono.wav''" and srate = 44100 and xs = "[1, 2, 3]"
         and c = "2 ^ 63"]
    by simp
  have d: "extract_data_from_wav lab_disk ''cam1.wav'' (PyInt (- 1)) = Inl IndexError"
    using cam1 extract_data_from_wav_columns
      [where w = lab_disk and stream = "''cam1.wav''" and srate = 44100
         and rows = "[[0, 7], [5, 8], [0, 9]]" and c = "- 1"]
    by simp
  have e: "extract_data_from_wav lab_disk ''cam1.wav'' (PyInt (2 ^ 64 - 1)) = Inl OverflowError"
    using cam1 extract_data_from_wav_columns
      [where w = lab_disk and stream = "''cam1.wav''" and srate = 44100
         and rows = "[[0, 7], [5, 8], [0, 9]]" and c = "2 ^ 64 - 1"]
    by simp
  have f: "isl (extract_data_from_wav lab_disk ''cam1.wav'' PyNone)"
    using cam1 extract_data_from_wav_columns
      [where w = lab_disk and stream = "''cam1.wav''" and srate = 44100
         and wav_signal = "Arr2 2 [[0, 7], [5, 8], [0, 9]]" and channel = PyNone]
    by simp
  have g: "extract_data_from_wav lab_disk ''rig3.wav'' (PyInt (- 1)) =
      Inr (8000, [3, 6], [3, 6])"
    using rig3 extract_data_from_wav_columns
      [where w = lab_disk and stream = "''rig3.wav''" and srate = 8000 and k = 3
         and rows = "[[1, 2, 3], [4, 5, 6]]" and c = "- 1"]
    by simp
  have h: "extract_data_from_wav lab_disk ''rig3.wav'' (PyInt 3) = Inl IndexError"
    using rig3 extract_data_from_wav_columns
      [where w = lab_disk and stream = "''rig3.wav''" and srate = 8000 and k = 3
         and rows = "[[1, 2, 3], [4, 5, 6]]" and c = 3]
    by simp
  from a b c d e f g h show ?thesis by simp
qed

section \<open>What \<open>add_stream\<close> does with a stream\<close>

text \<open>
  C1, as the spec states it: \<open>add_stream\<close> lets no exception escape and returns a
  \<open>SyncResult\<close>. On the code it fails three ways: a video file raises \<open>TypeError\<close>, a mono
  \<open>.wav\<close> file raises \<open>IndexError\<close>, and the call that succeeds returns \<open>None\<close>.
\<close>

theorem add_stream_raises_counterexample:
  "fst (add_stream lab_disk lab_session ''cam2.mp4'' (PyInt 0)) = Inl TypeError \<and>
   fst (add_stream lab_disk lab_session ''mono.wav'' (PyInt 0)) = Inl IndexError \<and>
   fst (add_stream lab_disk lab_session ''cam1.wav'' (PyInt 0)) = Inr PyNone"
  by code_simp

text \<open>
  C1, amended. \<open>add_stream\<close> runs no detection, matching or fit and returns no
  \<open>SyncResult\<close>: for a path with suffix \<open>.wav\<close> whose file decodes to a signal with at
  least two columns, and channel 0 or 1, it appends
  \<open>(stream, srate, column channel, column 1 - channel)\<close> to \<open>self.streams\<close> and returns
  \<open>None\<close>, whatever the pulse channel holds; for any other suffix it raises \<open>TypeError\<close>;
  and whenever it returns, it returns \<open>None\<close>.
\<close>

theorem add_stream_outcome:
  "(path_suffix stream = ''.wav'' \<and> wavread w stream = Inr (srate, Arr2 k rows) \<and>
    2 \<le> k \<and> (c = 0 \<or> c = 1) \<longrightarrow>
      add_stream w self stream (PyInt c) =
        (Inr PyNone,
         self\<lparr>streams := streams self @
           [(stream, srate, map (\<lambda>r. r ! nat c) rows, map (\<lambda>r. r ! nat (1 - c)) rows)]\<rparr>)) \<and>
   (path_suffix stream \<noteq> ''.wav'' \<longrightarrow>
      fst (add_stream w self stream channel) = Inl TypeError) \<and>
   (\<forall>v. fst (add_stream w self stream channel) = Inr v \<longrightarrow> v = PyNone)"
  by (auto simp: add_stream_def extract_data_from_stream_def extract_data_from_wav_def
           split: sum.splits prod.splits)

text \<open>The stereo track with channel 0, and the video file with the default channel.\<close>

theorem add_stream_outcome_witness:
  "path_suffix ''cam1.wav'' = ''.wav'' \<and>
   add_stream lab_disk lab_session ''cam1.wav'' (PyInt 0) =
     (Inr PyNone, lab_session\<lparr>streams := [(''cam1.wav'', 44100, [0, 5, 0], [7, 8, 9])]\<rparr>) \<and>
   path_suffix ''cam2.mp4'' \<noteq> ''.wav'' \<and>
   fst (add_stream lab_disk lab_session ''cam2.mp4'' PyNone) = Inl TypeError"
proof -
  have h1: "path_suffix ''cam1.wav'' = ''.wav''" by code_simp
  have h2: "path_suffix ''cam2.mp4'' \<noteq> ''.wav''" by code_simp
  have h3: "wavread lab_disk ''cam1.wav'' = Inr (44100, Arr2 2 [[0, 7], [5, 8], [0, 9]])"
    by (simp add: lab_disk_def)
  have h4: "streams lab_session = []" by (simp add: lab_session_def)
  show ?thesis
    using h1 h2 h3 h4
      add_stream_outcome [of "''cam1.wav''" lab_disk 44100 2 "[[0, 7], [5, 8], [0, 9]]" 0
        lab_session "PyInt 0"]
      add_stream_outcome [of "''cam2.mp4''" lab_disk 44100 2 "[]" 0 lab_session PyNone]
    by simp
qed

section \<open>The streams of a session\<close>

lemma add_stream_ok_iff:
  "fst (add_stream w s stream channel) = Inr PyNone \<longleftrightarrow>
     \<not> isl (extract_data_from_stream w stream channel)"
  by (simp add: add_stream_def split: sum.splits prod.splits)

lemma streams_add_stream:
  "streams (snd (add_stream w s stream channel)) =
     streams s @ (case extract_data_from_stream w stream channel of
                    Inl e \<Rightarrow> []
                  | Inr (srate, pulses, data) \<Rightarrow> [(stream, srate, pulses, data)])"
  by (simp add: add_stream_def split: sum.splits prod.splits)

lemma streams_add_streams:
  "streams (add_streams w s calls) =
     streams s @ concat (map (\<lambda>(stream, channel).
        case extract_data_from_stream w stream channel of
          Inl e \<Rightarrow> []
        | Inr (srate, pulses, data) \<Rightarrow> [(stream, srate, pulses, data)]) calls)"
  unfolding add_streams_def
proof (induction calls arbitrary: s)
  case Nil
  show ?case by simp
next
  case (Cons call calls)
  obtain stream channel where call: "call = (stream, channel)" by (cases call)
  show ?case
    by (simp add: call Cons.IH streams_add_stream)
qed

lemma names_add_streams:
  "map fst (streams (add_streams w s calls)) =
     map fst (streams s) @
     map fst (filter (\<lambda>(stream, channel).
        fst (add_stream w s0 stream channel) = Inr PyNone) calls)"
  unfolding streams_add_streams
  by (induction calls) (auto simp: add_stream_ok_iff split: sum.splits prod.splits)

text \<open>
  C2, as the spec states it: the report lists every added stream, the failed ones too.
  On the code, after a stereo track and a video file were handed to \<open>add_stream\<close>,
  \<open>do_syncing\<close> returns \<open>None\<close>, and the video file is in no field of the object:
  \<open>self.streams\<close> names the stereo track alone.
\<close>

theorem report_counterexample:
  "fst (do_syncing (add_streams lab_disk lab_session
          [(''cam1.wav'', PyInt 0), (''cam2.mp4'', PyInt 0)])) = PyNone \<and>
   map fst (streams (add_streams lab_disk lab_session
          [(''cam1.wav'', PyInt 0), (''cam2.mp4'', PyInt 0)])) = [''cam1.wav'']"
  by code_simp

text \<open>
  C2, amended. There is no report: \<open>do_syncing\<close> returns \<open>None\<close>. What the object keeps
  is \<open>self.streams\<close>: after any sequence of \<open>add_stream\<close> calls it holds, behind what it
  held before, one tuple \<open>(stream, srate, pulses, data)\<close> for each call that returned, in
  the order of the calls, and nothing for a call that raised.
\<close>

theorem streams_in_call_order:
  "streams (add_streams w self calls) =
     streams self @ concat (map (\<lambda>(stream, channel).
        case extract_data_from_stream w stream channel of
          Inl e \<Rightarrow> []
        | Inr (srate, pulses, data) \<Rightarrow> [(stream, srate, pulses, data)]) calls) \<and>
   map fst (streams (add_streams w self calls)) =
     map fst (streams self) @
     map fst (filter (\<lambda>(stream, channel).
        fst (add_stream w self stream channel) = Inr PyNone) calls) \<and>
   fst (do_syncing (add_streams w self calls)) = PyNone"
  using streams_add_streams [of w self calls] names_add_streams [of w self calls self]
  by (simp add: do_syncing_def)

text \<open>Four calls, the second and the third of which raise.\<close>

theorem streams_in_call_order_witness:
  "map fst (streams (add_streams lab_disk lab_session
      [(''cam1.wav'', PyInt 1), (''cam2.mp4'', PyInt 0), (''mono.wav'', PyInt 0),
       (''cam1.wav'', PyInt 0)])) = [''cam1.wav'', ''cam1.wav''] \<and>
   streams (add_streams lab_disk lab_session
      [(''cam1.wav'', PyInt 1), (''cam2.mp4'', PyInt 0), (''mono.wav'', PyInt 0),
       (''cam1.wav'', PyInt 0)]) =
     [(''cam1.wav'', 44100, [7, 8, 9], [0, 5, 0]), (''cam1.wav'', 44100, [0, 5, 0], [7, 8, 9])]"
proof -
  let ?calls = "[(''cam1.wav'', PyInt 1), (''cam2.mp4'', PyInt 0), (''mono.wav'', PyInt 0),
       (''cam1.wav'', PyInt 0)]"
  have e1: "extract_data_from_stream lab_disk ''cam1.wav'' (PyInt 1) =
      Inr (44100, [7, 8, 9], [0, 5, 0])"
    by code_simp
  have e2: "extract_data_from_stream lab_disk ''cam2.mp4'' (PyInt 0) = Inl TypeError"
    by code_simp
  have e3: "extract_data_from_stream lab_disk ''mono.wav'' (PyInt 0) = Inl IndexError"
    by code_simp
  have e4: "extract_data_from_stream lab_disk ''cam1.wav'' (PyInt 0) =
      Inr (44100, [0, 5, 0], [7, 8, 9])"
    by code_simp
  have h: "streams lab_session = []" by (simp add: lab_session_def)
  have s: "streams (add_streams lab_disk lab_session ?calls) =
     [(''cam1.wav'', 44100, [7, 8, 9], [0, 5, 0]), (''cam1.wav'', 44100, [0, 5, 0], [7, 8, 9])]"
    using streams_in_call_order [of lab_disk lab_session ?calls]
    by (simp add: e1 e2 e3 e4 h)
  show ?thesis by (simp add: s)
qed

section \<open>The reference of a session\<close>

text \<open>
  C3, as the spec states it: a reference without pulses is refused with
  \<open>NoPulsesFoundError\<close>. On the code, the constructor accepts the reference file whose
  stim channel is flat and stores that channel as it is.
\<close>

theorem init_pulse_free_counterexample:
  "init lab_disk (PyStr ''ref_raw.fif'') (PyStr ''STI101'') = Inr lab_session \<and>
   map_option fst (ref_stream lab_session) = Some [0, 0, 0, 0]"
  by code_simp

text \<open>
  C3, amended. The constructor fails loudly for an invalid argument and detects no
  pulses. It returns an object exactly when \<open>reference_object\<close> is a non-empty string,
  the path exists and has the suffix \<open>.fif\<close>, \<open>mne\<close> reads the file, \<open>pulse_channel\<close> is a
  non-empty string and \<open>raw[pulse_channel]\<close> answers; the object then holds the \<open>Raw\<close>
  object, that answer unprocessed (whatever the channel holds), the sample frequency and
  no streams. Otherwise it raises: \<open>TypeError\<close> for a \<open>reference_object\<close> or a
  \<open>pulse_channel\<close> that is empty or no string, \<open>OSError\<close> for a path that does not exist,
  \<open>ValueError\<close> for another suffix, the exception of \<open>mne\<close> itself, unchanged, when
  \<open>read_raw_fif\<close> or \<open>raw[pulse_channel]\<close> raises, and \<open>ValueError\<close> when
  \<open>raw[pulse_channel]\<close> is \<open>None\<close>.
\<close>

theorem init_outcome:
  "(init w reference_object pulse_channel = Inr self \<longleftrightarrow>
      (\<exists>path name raw0 item.
         reference_object = PyStr path \<and> path \<noteq> [] \<and> path_exists w path \<and>
         path_suffix path = ''.fif'' \<and> read_raw_fif w path = Inr raw0 \<and>
         pulse_channel = PyStr name \<and> name \<noteq> [] \<and>
         raw_getitem w raw0 name = Inr (Some item) \<and>
         self = \<lparr>raw = raw0, ref_stream = Some item, sfreq = info_sfreq raw0, streams = []\<rparr>)) \<and>
   (\<not> truthy reference_object \<or> \<not> is_str reference_object \<longrightarrow>
      init w reference_object pulse_channel = Inl TypeError) \<and>
   (p \<noteq> [] \<and> \<not> path_exists w p \<longrightarrow> init w (PyStr p) pulse_channel = Inl OSError) \<and>
   (p \<noteq> [] \<and> path_exists w p \<and> path_suffix p \<noteq> ''.fif'' \<longrightarrow>
      init w (PyStr p) pulse_channel = Inl ValueError) \<and>
   (p \<noteq> [] \<and> path_exists w p \<and> path_suffix p = ''.fif'' \<and> read_raw_fif w p = Inr r \<and>
    (\<not> truthy pulse_channel \<or> \<not> is_str pulse_channel) \<longrightarrow>
      init w (PyStr p) pulse_channel = Inl TypeError) \<and>
   (p \<noteq> [] \<and> path_exists w p \<and> path_suffix p = ''.fif'' \<and> read_raw_fif w p = Inl e \<longrightarrow>
      init w (PyStr p) pulse_channel = Inl e) \<and>
   (p \<noteq> [] \<and> path_exists w p \<and> path_suffix p = ''.fif'' \<and> read_raw_fif w p = Inr r \<and>
    ch \<noteq> [] \<and> raw_getitem w r ch = Inl e \<longrightarrow>
      init w (PyStr p) (PyStr ch) = Inl e) \<and>
   (p \<noteq> [] \<and> path_exists w p \<and> path_suffix p = ''.fif'' \<and> read_raw_fif w p = Inr r \<and>
    ch \<noteq> [] \<and> raw_getitem w r ch = Inr None \<longrightarrow>
      init w (PyStr p) (PyStr ch) = Inl ValueError)"
proof -
  have ok: "init w reference_object pulse_channel = Inr self \<longleftrightarrow>
      (\<exists>path name raw0 item.
         reference_object = PyStr path \<and> path \<noteq> [] \<and> path_exists w path \<and>
         path_suffix path = ''.fif'' \<and> read_raw_fif w path = Inr raw0 \<and>
         pulse_channel = PyStr name \<and> name \<noteq> [] \<and>
         raw_getitem w raw0 name = Inr (Some item) \<and>
         self = \<lparr>raw = raw0, ref_stream = Some item, sfreq = info_sfreq raw0, streams = []\<rparr>)"
  proof (cases reference_object)
    case (PyStr path)
    show ?thesis
    proof (cases pulse_channel)
      case (PyStr name)
      show ?thesis
        using \<open>reference_object = PyStr path\<close> PyStr
        by (auto simp: init_def split: sum.splits option.splits)
    qed (simp_all add: init_def \<open>reference_object = PyStr path\<close> split: sum.splits)
  qed (simp_all add: init_def)
  have bad: "\<not> truthy reference_object \<or> \<not> is_str reference_object \<longrightarrow>
      init w reference_object pulse_channel = Inl TypeError"
    by (simp add: init_def)
  have missing: "p \<noteq> [] \<and> \<not> path_exists w p \<longrightarrow> init w (PyStr p) pulse_channel = Inl OSError"
    by (simp add: init_def)
  have suffix: "p \<noteq> [] \<and> path_exists w p \<and> path_suffix p \<noteq> ''.fif'' \<longrightarrow>
      init w (PyStr p) pulse_channel = Inl ValueError"
    by (simp add: init_def)
  have chan: "p \<noteq> [] \<and> path_exists w p \<and> path_suffix p = ''.fif'' \<and> read_raw_fif w p = Inr r \<and>
    (\<not> truthy pulse_channel \<or> \<not> is_str pulse_channel) \<longrightarrow>
      init w (PyStr p) pulse_channel = Inl TypeError"
    by (auto simp: init_def)
  have unread: "p \<noteq> [] \<and> path_exists w p \<and> path_suffix p = ''.fif'' \<and>
    read_raw_fif w p = Inl e \<longrightarrow> init w (PyStr p) pulse_channel = Inl e"
    by (simp add: init_def)
  have nochan: "p \<noteq> [] \<and> path_exists w p \<and> path_suffix p = ''.fif'' \<and>
    read_raw_fif w p = Inr r \<and> ch \<noteq> [] \<and> raw_getitem w r ch = Inl e \<longrightarrow>
      init w (PyStr p) (PyStr ch) = Inl e"
    by (simp add: init_def)
  have none: "p \<noteq> [] \<and> path_exists w p \<and> path_suffix p = ''.fif'' \<and>
    read_raw_fif w p = Inr r \<and> ch \<noteq> [] \<and> raw_getitem w r ch = Inr None \<longrightarrow>
      init w (PyStr p) (PyStr ch) = Inl ValueError"
    by (simp add: init_def)
  show ?thesis
    by (intro conjI)
      (fact ok, fact bad, fact missing, fact suffix, fact chan, fact unread, fact nochan,
       fact none)
qed

text \<open>
  No reference, a number for a reference, a file that is not there, a file of another
  format, a number for a channel, a file that \<open>mne\<close> cannot read, a channel the file
  does not have (for which \<open>raw[name]\<close> raises, or answers \<open>None\<close>), and the arguments
  that pass every check.
\<close>

theorem init_outcome_witness:
  "init lab_disk PyNone (PyStr ''STI101'') = Inl TypeError \<and>
   init lab_disk (PyInt 3) (PyStr ''STI101'') = Inl TypeError \<and>
   init lab_disk (PyStr ''lost_raw.fif'') (PyStr ''STI101'') = Inl OSError \<and>
   init lab_disk (PyStr ''cam1.wav'') (PyStr ''STI101'') = Inl ValueError \<and>
   init lab_disk (PyStr ''ref_raw.fif'') (PyInt 1) = Inl TypeError \<and>
   init lab_disk (PyStr ''broken_raw.fif'') (PyStr ''STI101'') = Inl ValueError \<and>
   init (lab_disk\<lparr>read_raw_fif := (\<lambda>p. Inl FileNotFoundError)\<rparr>)
     (PyStr ''ref_raw.fif'') (PyStr ''STI101'') = Inl FileNotFoundError \<and>
   init (lab_disk\<lparr>raw_getitem := (\<lambda>r name. Inl IndexError)\<rparr>)
     (PyStr ''ref_raw.fif'') (PyStr ''STI101'') = Inl IndexError \<and>
   init lab_disk (PyStr ''ref_raw.fif'') (PyStr ''MISC001'') = Inl ValueError \<and>
   init lab_disk_lenient (PyStr ''ref_raw.fif'') (PyStr ''MISC001'') = Inl ValueError \<and>
   init lab_disk (PyStr ''ref_raw.fif'') (PyStr ''STI101'') = Inr lab_session"
proof -
  let ?unplugged = "lab_disk\<lparr>read_raw_fif := (\<lambda>p. Inl FileNotFoundError)\<rparr>"
  let ?deaf = "lab_disk\<lparr>raw_getitem := (\<lambda>r name. Inl IndexError)\<rparr>"
  have s: "path_suffix ''cam1.wav'' \<noteq> ''.fif''" "path_suffix ''ref_raw.fif'' = ''.fif''"
    "path_suffix ''broken_raw.fif'' = ''.fif''"
    by code_simp+
  have e: "\<not> path_exists lab_disk ''lost_raw.fif''" "path_exists lab_disk ''cam1.wav''"
    "path_exists lab_disk ''ref_raw.fif''" "read_raw_fif lab_disk ''ref_raw.fif'' = Inr lab_raw"
    "path_exists lab_disk ''broken_raw.fif''"
    "read_raw_fif lab_disk ''broken_raw.fif'' = Inl ValueError"
    "path_exists lab_disk_lenient ''ref_raw.fif''"
    "read_raw_fif lab_disk_lenient ''ref_raw.fif'' = Inr lab_raw"
    "path_exists ?unplugged ''ref_raw.fif''"
    "read_raw_fif ?unplugged ''ref_raw.fif'' = Inl FileNotFoundError"
    "path_exists ?deaf ''ref_raw.fif''"
    "read_raw_fif ?deaf ''ref_raw.fif'' = Inr lab_raw"
    "raw_getitem ?deaf lab_raw ''STI101'' = Inl IndexError"
    by (simp_all add: lab_disk_def lab_disk_lenient_def)
  have g: "raw_getitem lab_disk lab_raw ''STI101'' =
      Inr (Some ([0, 0, 0, 0], [0, 1 / 1000, 2 / 1000, 3 / 1000]))"
    "raw_getitem lab_disk lab_raw ''MISC001'' = Inl ValueError"
    "raw_getitem lab_disk_lenient lab_raw ''MISC001'' = Inr None"
    by code_simp+
  have l: "lab_session =
      \<lparr>raw = lab_raw, ref_stream = Some ([0, 0, 0, 0], [0, 1 / 1000, 2 / 1000, 3 / 1000]),
       sfreq = info_sfreq lab_raw, streams = []\<rparr>"
    by (simp add: lab_session_def lab_raw_def)
  have a1: "init lab_disk PyNone (PyStr ''STI101'') = Inl TypeError"
    using init_outcome [where w = lab_disk and reference_object = PyNone
      and pulse_channel = "PyStr ''STI101''"]
    by simp
  have a2: "init lab_disk (PyInt 3) (PyStr ''STI101'') = Inl TypeError"
    using init_outcome [where w = lab_disk and reference_object = "PyInt 3"
      and pulse_channel = "PyStr ''STI101''"]
    by simp
  have a3: "init lab_disk (PyStr ''lost_raw.fif'') (PyStr ''STI101'') = Inl OSError"
    using e init_outcome [where w = lab_disk and p = "''lost_raw.fif''"
      and pulse_channel = "PyStr ''STI101''"]
    by simp
  have a4: "init lab_disk (PyStr ''cam1.wav'') (PyStr ''STI101'') = Inl ValueError"
    using s e init_outcome [where w = lab_disk and p = "''cam1.wav''"
      and pulse_channel = "PyStr ''STI101''"]
    by simp
  have a5: "init lab_disk (PyStr ''ref_raw.fif'') (PyInt 1) = Inl TypeError"
    using s e init_outcome [where w = lab_disk and p = "''ref_raw.fif''" and r = lab_raw
      and pulse_channel = "PyInt 1"]
    by simp
  have a6: "init lab_disk (PyStr ''broken_raw.fif'') (PyStr ''STI101'') = Inl ValueError"
    using s e init_outcome [where w = lab_disk and p = "''broken_raw.fif''"
      and e = ValueError and pulse_channel = "PyStr ''STI101''"]
    by simp
  have a7: "init ?unplugged (PyStr ''ref_raw.fif'') (PyStr ''STI101'') = Inl FileNotFoundError"
    using s e init_outcome [where w = ?unplugged and p = "''ref_raw.fif''"
      and e = FileNotFoundError and pulse_channel = "PyStr ''STI101''"]
    by simp
  have a8: "init ?deaf (PyStr ''ref_raw.fif'') (PyStr ''STI101'') = Inl IndexError"
    using s e init_outcome [where w = ?deaf and p = "''ref_raw.fif''" and r = lab_raw
      and ch = "''STI101''" and e = IndexError]
    by simp
  have a9: "init lab_disk (PyStr ''ref_raw.fif'') (PyStr ''MISC001'') = Inl ValueError"
    using s e g init_outcome [where w = lab_disk and p = "''ref_raw.fif''" and r = lab_raw
      and ch = "''MISC001''" and e = ValueError]
    by simp
  have a10: "init lab_disk_lenient (PyStr ''ref_raw.fif'') (PyStr ''MISC001'') = Inl ValueError"
    using s e g init_outcome [where w = lab_disk_lenient and p = "''ref_raw.fif''"
      and r = lab_raw and ch = "''MISC001''"]
    by simp
  have a11: "init lab_disk (PyStr ''ref_raw.fif'') (PyStr ''STI101'') = Inr lab_session"
    using s e g l init_outcome [where w = lab_disk
      and reference_object = "PyStr ''ref_raw.fif''" and pulse_channel = "PyStr ''STI101''"
      and self = lab_session]
    by simp
  from a1 a2 a3 a4 a5 a6 a7 a8 a9 a10 a11 show ?thesis by simp
qed

section \<open>What is read from disk\<close>








end
